theory Spec2Isabelle
  imports Main
begin

section \<open>The OAuth callback handler of app/api/oauth/callback/route.ts\<close>

text \<open>
  The handler \<open>GET\<close> reads four query parameters, the process-wide map
  \<open>global.oauthStates\<close>, the clock and four environment variables, and it may call
  \<open>fetch\<close> once. The model passes all of these in explicitly and returns the HTTP
  response together with the map as the handler leaves it and the list of requests it
  handed to \<open>fetch\<close>.

  One call of the handler is modelled as running alone: what other requests do to the
  map while this one waits for \<open>fetch\<close> is not represented.
\<close>

subsection \<open>JavaScript values the handler tests\<close>

text \<open>
  \<open>searchParams.get\<close> and \<open>process.env.X\<close> give a string or nothing (\<open>null\<close>,
  \<open>undefined\<close>). The handler tests them with \<open>if (x)\<close> and \<open>!x\<close>: nothing and the
  empty string are both falsy.
\<close>

definition truthy :: "string option \<Rightarrow> bool" where
  "truthy p = (case p of None \<Rightarrow> False | Some s \<Rightarrow> s \<noteq> [])"

text \<open>\<open>p || d\<close> on strings: the left operand when it is truthy, else the right one.\<close>

definition or_else :: "string option \<Rightarrow> string \<Rightarrow> string" where
  "or_else p d = (case p of None \<Rightarrow> d | Some s \<Rightarrow> if s \<noteq> [] then s else d)"

text \<open>What a \<open>catch\<close> clause receives: an \<open>Error\<close> with its message, or any other value.\<close>

datatype thrown = ErrorObject string | OtherValue

text \<open>
  The result of \<open>JSON.parse\<close>. The handler never computes with a number, it only
  passes it on and prints it, so a number is held as the text JavaScript prints it with
  (\<open>3600\<close> as \<open>''3600''\<close>). An object keeps its members in the order of the text.
\<close>

datatype json =
    JNull
  | JBool bool
  | JNumber string
  | JString string
  | JArray "json list"
  | JObject "(string \<times> json) list"

subsection \<open>Request, state store, environment\<close>

record search_params =
  code :: "string option"
  state :: "string option"
  error :: "string option"
  error_description :: "string option"

text \<open>The value stored under a state token: the handler reads these two fields.\<close>

record stored_state_info =
  codeVerifier :: string
  timestamp :: int

text \<open>\<open>global.oauthStates\<close>: \<open>None\<close> is \<open>undefined\<close>, \<open>Some m\<close> is a \<open>Map\<close>.\<close>

type_synonym oauth_states = "(string \<rightharpoonup> stored_state_info) option"

record process_env =
  OAUTH_CLIENT_ID :: "string option"
  OAUTH_CLIENT_SECRET :: "string option"
  OAUTH_REDIRECT_URI :: "string option"
  VERCEL_URL :: "string option"

subsection \<open>The outbound request and what \<open>fetch\<close> gives back\<close>

record token_request =
  url :: string
  http_method :: string
  headers :: "(string \<times> string) list"
  form_body :: "(string \<times> string) list"

text \<open>
  A response of \<open>fetch\<close>: its status, and what \<open>await r.text()\<close> and
  \<open>await r.json()\<close> produce (\<open>Inl\<close> when the promise rejects). The handler calls at
  most one of the two readers.
\<close>

record fetch_response =
  resp_status :: nat
  resp_text :: "thrown + string"
  resp_json :: "thrown + json"

text \<open>\<open>Response.ok\<close>: the status is in the range 200 to 299.\<close>

definition ok :: "fetch_response \<Rightarrow> bool" where
  "ok r = (200 \<le> resp_status r \<and> resp_status r \<le> 299)"

datatype fetch_outcome = Rejects thrown | Resolves fetch_response

subsection \<open>Responses\<close>

text \<open>The \<open>tokens\<close> object of the success body; an \<open>undefined\<close> member is \<open>None\<close>.\<close>

record tokens =
  access_token :: "json option"
  token_type :: "json option"
  expires_in :: "json option"
  refresh_token :: "json option"
  scope :: "json option"

text \<open>
  One constructor for each object literal the handler passes to \<open>NextResponse.json\<close>,
  in the order of the source, with the members that are not constants. The success body
  has two: the \<open>tokens\<close> and the \<open>example\<close> text of the \<open>instructions\<close>.
\<close>

datatype response_body =
    OAuthAuthorizationFailed string "string option"
  | MissingRequiredParams bool bool
  | InvalidOrExpiredState
  | OAuthStateExpired
  | OAuthNotConfigured
  | TokenExchangeFailed nat string
  | AuthorizationSuccessful tokens string
  | FailedToProcessCallback string

record response =
  status :: nat
  body :: response_body

record result =
  returned :: response
  oauthStates :: oauth_states
  fetched :: "token_request list"

subsection \<open>Reading the token fields\<close>

text \<open>
  \<open>tokenResult.k\<close> for the five member names the handler reads, none of which is a
  property of a prototype: an object gives its member (the last one when the text
  repeats a name), every other value but \<open>null\<close> gives \<open>undefined\<close>.
\<close>

definition member :: "json \<Rightarrow> string \<Rightarrow> json option" where
  "member j k = (case j of JObject kvs \<Rightarrow> map_of (rev kvs) k | _ \<Rightarrow> None)"

text \<open>Reading a property of \<open>null\<close> throws a \<open>TypeError\<close> (the message is V8's).\<close>

definition null_read_message :: string where
  "null_read_message = ''Cannot read properties of null (reading 'access_token')''"

definition read_tokens :: "json \<Rightarrow> thrown + tokens" where
  "read_tokens tokenResult =
     (case tokenResult of
        JNull \<Rightarrow> Inl (ErrorObject null_read_message)
      | _ \<Rightarrow> Inr \<lparr> access_token = member tokenResult ''access_token'',
                  token_type = member tokenResult ''token_type'',
                  expires_in = member tokenResult ''expires_in'',
                  refresh_token = member tokenResult ''refresh_token'',
                  scope = member tokenResult ''scope'' \<rparr>)"

subsection \<open>The template literal of line 108\<close>

text \<open>
  \<open>`${v}`\<close> converts \<open>v\<close> to a string. For a value that came out of
  \<open>JSON.parse\<close>: a string is itself, \<open>null\<close>, a boolean and a number print as
  such, an array joins the conversions of its elements with commas (\<open>null\<close> elements
  as the empty string), and an object without a member named \<open>toString\<close> is
  \<open>[object Object]\<close>. An object with such a member hides the inherited method behind
  a value that cannot be called, \<open>valueOf\<close> gives back the object, and the
  conversion throws a \<open>TypeError\<close> (the message is V8's).
\<close>

definition convert_message :: string where
  "convert_message = ''Cannot convert object to primitive value''"

fun to_string :: "json \<Rightarrow> thrown + string"
  and join_elements :: "json list \<Rightarrow> thrown + string" where
  "to_string JNull = Inr ''null''"
| "to_string (JBool b) = Inr (if b then ''true'' else ''false'')"
| "to_string (JNumber n) = Inr n"
| "to_string (JString txt) = Inr txt"
| "to_string (JArray xs) = join_elements xs"
| "to_string (JObject kvs) =
     (if ''toString'' \<in> set (map fst kvs) then Inl (ErrorObject convert_message)
      else Inr ''[object Object]'')"
| "join_elements [] = Inr []"
| "join_elements [x] = (case x of JNull \<Rightarrow> Inr [] | _ \<Rightarrow> to_string x)"
| "join_elements (x # y # ys) =
     (case (case x of JNull \<Rightarrow> Inr [] | _ \<Rightarrow> to_string x) of
        Inl t \<Rightarrow> Inl t
      | Inr a \<Rightarrow>
          (case join_elements (y # ys) of
             Inl t \<Rightarrow> Inl t
           | Inr b \<Rightarrow> Inr (a @ '','' @ b)))"

text \<open>
  \<open>`Authorization: Bearer ${tokenResult.access_token}`\<close>, for a \<open>tokenResult\<close>
  that is not \<open>null\<close>; an \<open>undefined\<close> member prints as \<open>undefined\<close>.
\<close>

definition example :: "json \<Rightarrow> thrown + string" where
  "example tokenResult =
     (case member tokenResult ''access_token'' of
        None \<Rightarrow> Inr (''Authorization: Bearer '' @ ''undefined'')
      | Some v \<Rightarrow>
          (case to_string v of
             Inl t \<Rightarrow> Inl t
           | Inr txt \<Rightarrow> Inr (''Authorization: Bearer '' @ txt)))"

subsection \<open>The handler\<close>

definition TTL_ms :: int where
  "TTL_ms = 10 * 60 * 1000"

definition token_endpoint :: string where
  "token_endpoint = ''https://api.anthropic.com/oauth/token''"

definition redirectUri :: "process_env \<Rightarrow> string" where
  "redirectUri env =
     or_else (OAUTH_REDIRECT_URI env)
       (or_else (VERCEL_URL env) ''http://localhost:3000'' @ ''/api/oauth/callback'')"

definition tokenData :: "process_env \<Rightarrow> string \<Rightarrow> stored_state_info \<Rightarrow> (string \<times> string) list" where
  "tokenData env c storedStateInfo =
     [(''grant_type'', ''authorization_code''),
      (''client_id'', or_else (OAUTH_CLIENT_ID env) []),
      (''client_secret'', or_else (OAUTH_CLIENT_SECRET env) []),
      (''code'', c),
      (''redirect_uri'', redirectUri env),
      (''code_verifier'', codeVerifier storedStateInfo)]"

definition token_post :: "process_env \<Rightarrow> string \<Rightarrow> stored_state_info \<Rightarrow> token_request" where
  "token_post env c storedStateInfo =
     \<lparr> url = token_endpoint,
       http_method = ''POST'',
       headers = [(''Content-Type'', ''application/x-www-form-urlencoded''),
                  (''Accept'', ''application/json'')],
       form_body = tokenData env c storedStateInfo \<rparr>"

definition json_response :: "nat \<Rightarrow> response_body \<Rightarrow> response" where
  "json_response st b = \<lparr> status = st, body = b \<rparr>"

text \<open>
  The body of the \<open>try\<close> block (lines 49 to 111), entered with the map \<open>m\<close> in which
  the lookup succeeded, the code \<open>c\<close>, the state token \<open>s\<close> and the entry found.
  It gives what the block returns or throws, the store as the block leaves it, and the
  requests it made. After a success response the order is that of the source: the body
  is parsed (line 89), the entry is deleted (line 92), the five members are read (lines
  100 to 104) and the example text is built (line 108); a throw at either of the last
  two steps finds the entry already deleted.
\<close>

definition try_block ::
  "process_env \<Rightarrow> (token_request \<Rightarrow> fetch_outcome) \<Rightarrow> (string \<rightharpoonup> stored_state_info) \<Rightarrow>
   string \<Rightarrow> string \<Rightarrow> stored_state_info \<Rightarrow>
   (thrown + response) \<times> oauth_states \<times> token_request list" where
  "try_block env fetch m c s storedStateInfo =
     (if \<not> truthy (OAUTH_CLIENT_ID env) \<or> \<not> truthy (OAUTH_CLIENT_SECRET env) then
        (Inr (json_response 500 OAuthNotConfigured), Some m, [])
      else
        let req = token_post env c storedStateInfo in
        case fetch req of
          Rejects t \<Rightarrow> (Inl t, Some m, [req])
        | Resolves tokenResponse \<Rightarrow>
            if \<not> ok tokenResponse then
              (case resp_text tokenResponse of
                 Inl t \<Rightarrow> (Inl t, Some m, [req])
               | Inr errorData \<Rightarrow>
                   (Inr (json_response 400
                           (TokenExchangeFailed (resp_status tokenResponse) errorData)),
                    Some m, [req]))
            else
              (case resp_json tokenResponse of
                 Inl t \<Rightarrow> (Inl t, Some m, [req])
               | Inr tokenResult \<Rightarrow>
                   (case read_tokens tokenResult of
                      Inl t \<Rightarrow> (Inl t, Some (m(s := None)), [req])
                    | Inr tk \<Rightarrow>
                        (case example tokenResult of
                           Inl t \<Rightarrow> (Inl t, Some (m(s := None)), [req])
                         | Inr ex \<Rightarrow>
                             (Inr (json_response 200 (AuthorizationSuccessful tk ex)),
                              Some (m(s := None)), [req])))))"

text \<open>The \<open>catch\<close> clause (lines 112 to 118).\<close>

definition errorMessage :: "thrown \<Rightarrow> string" where
  "errorMessage t = (case t of ErrorObject msg \<Rightarrow> msg | OtherValue \<Rightarrow> ''Unknown error'')"

definition GET ::
  "process_env \<Rightarrow> (token_request \<Rightarrow> fetch_outcome) \<Rightarrow> int \<Rightarrow> oauth_states \<Rightarrow>
   search_params \<Rightarrow> result" where
  "GET env fetch now store searchParams =
     (if truthy (error searchParams) then
        \<lparr> returned = json_response 400
             (OAuthAuthorizationFailed (or_else (error searchParams) [])
                (error_description searchParams)),
          oauthStates = store, fetched = [] \<rparr>
      else if \<not> truthy (code searchParams) \<or> \<not> truthy (state searchParams) then
        \<lparr> returned = json_response 400
             (MissingRequiredParams (\<not> truthy (code searchParams))
                (\<not> truthy (state searchParams))),
          oauthStates = store, fetched = [] \<rparr>
      else
        let c = or_else (code searchParams) []; s = or_else (state searchParams) [] in
        case store of
          None \<Rightarrow>
            \<lparr> returned = json_response 400 InvalidOrExpiredState,
              oauthStates = store, fetched = [] \<rparr>
        | Some m \<Rightarrow>
            (case m s of
               None \<Rightarrow>
                 \<lparr> returned = json_response 400 InvalidOrExpiredState,
                   oauthStates = store, fetched = [] \<rparr>
             | Some storedStateInfo \<Rightarrow>
                 if timestamp storedStateInfo < now - TTL_ms then
                   \<lparr> returned = json_response 400 OAuthStateExpired,
                     oauthStates = Some (m(s := None)), fetched = [] \<rparr>
                 else
                   (case try_block env fetch m c s storedStateInfo of
                      (Inr r, store', reqs) \<Rightarrow>
                        \<lparr> returned = r, oauthStates = store', fetched = reqs \<rparr>
                    | (Inl t, store', reqs) \<Rightarrow>
                        \<lparr> returned =
                            json_response 500 (FailedToProcessCallback (errorMessage t)),
                          oauthStates = store', fetched = reqs \<rparr>)))"

text \<open>
  \<open>global.oauthStates?.get(s)\<close>, as line 32 reads the store, for stating what a
  store holds.
\<close>

definition lookup :: "oauth_states \<Rightarrow> string \<Rightarrow> stored_state_info option" where
  "lookup store s = (case store of None \<Rightarrow> None | Some m \<Rightarrow> m s)"

text \<open>
  Callbacks handled one after the other: each is a call of \<open>GET\<close> with its own
  environment, token endpoint behaviour, clock reading and query, on the store the
  previous one left.
\<close>

record callback =
  cb_env :: process_env
  cb_fetch :: "token_request \<Rightarrow> fetch_outcome"
  cb_now :: int
  cb_params :: search_params

fun after_callbacks :: "oauth_states \<Rightarrow> callback list \<Rightarrow> oauth_states" where
  "after_callbacks store [] = store"
| "after_callbacks store (cb # cbs) =
     after_callbacks
       (oauthStates (GET (cb_env cb) (cb_fetch cb) (cb_now cb) store (cb_params cb))) cbs"

subsection \<open>Scenario data\<close>

text \<open>The inputs of the scenarios the theorems below are run on.\<close>

definition env_configured :: process_env where
  "env_configured =
     \<lparr> OAUTH_CLIENT_ID = Some ''client-1'', OAUTH_CLIENT_SECRET = Some ''secret-1'',
       OAUTH_REDIRECT_URI = None, VERCEL_URL = None \<rparr>"

definition env_unconfigured :: process_env where
  "env_unconfigured =
     \<lparr> OAUTH_CLIENT_ID = None, OAUTH_CLIENT_SECRET = None,
       OAUTH_REDIRECT_URI = None, VERCEL_URL = None \<rparr>"

definition env_redirect :: process_env where
  "env_redirect =
     \<lparr> OAUTH_CLIENT_ID = Some ''client-1'', OAUTH_CLIENT_SECRET = Some ''secret-1'',
       OAUTH_REDIRECT_URI = Some ''https://sheets.example/api/oauth/callback'',
       VERCEL_URL = Some ''https://sheets.vercel.example'' \<rparr>"

definition env_vercel :: process_env where
  "env_vercel =
     \<lparr> OAUTH_CLIENT_ID = Some ''client-1'', OAUTH_CLIENT_SECRET = Some ''secret-1'',
       OAUTH_REDIRECT_URI = None, VERCEL_URL = Some ''https://sheets.vercel.example'' \<rparr>"

definition entry :: "string \<Rightarrow> int \<Rightarrow> stored_state_info" where
  "entry v t = \<lparr> codeVerifier = v, timestamp = t \<rparr>"

definition single :: "string \<Rightarrow> stored_state_info \<Rightarrow> (string \<rightharpoonup> stored_state_info)" where
  "single s info = [s \<mapsto> info]"

definition query :: "string \<Rightarrow> string \<Rightarrow> search_params" where
  "query c s = \<lparr> code = Some c, state = Some s, error = None, error_description = None \<rparr>"

definition query_empty_error :: search_params where
  "query_empty_error =
     \<lparr> code = None, state = None, error = Some [], error_description = None \<rparr>"

definition query_denied :: search_params where
  "query_denied =
     \<lparr> code = None, state = None, error = Some ''access_denied'',
       error_description = Some ''The user denied the request'' \<rparr>"

definition token_json :: json where
  "token_json =
     JObject [(''access_token'', JString ''tok''), (''token_type'', JString ''bearer''),
              (''expires_in'', JNumber ''3600'')]"

definition endpoint_grants :: "token_request \<Rightarrow> fetch_outcome" where
  "endpoint_grants req =
     Resolves \<lparr> resp_status = 200, resp_text = Inr ''{...}'', resp_json = Inr token_json \<rparr>"

definition odd_json :: json where
  "odd_json = JObject [(''access_token'', JObject [(''toString'', JNumber ''1'')])]"

definition endpoint_odd :: "token_request \<Rightarrow> fetch_outcome" where
  "endpoint_odd req =
     Resolves \<lparr> resp_status = 200, resp_text = Inr ''{...}'', resp_json = Inr odd_json \<rparr>"

definition endpoint_rejects :: "token_request \<Rightarrow> fetch_outcome" where
  "endpoint_rejects req =
     Resolves \<lparr> resp_status = 400, resp_text = Inr ''invalid_grant'',
                resp_json = Inl (ErrorObject ''Unexpected token'') \<rparr>"

definition endpoint_unreachable :: "token_request \<Rightarrow> fetch_outcome" where
  "endpoint_unreachable req = Rejects (ErrorObject ''fetch failed'')"

definition a_callback :: "int \<Rightarrow> search_params \<Rightarrow> callback" where
  "a_callback t q =
     \<lparr> cb_env = env_configured, cb_fetch = endpoint_grants, cb_now = t, cb_params = q \<rparr>"

section \<open>How the handler branches\<close>

lemma truthy_Some: "truthy (Some s) = (s \<noteq> [])"
  by (simp add: truthy_def)

lemma or_else_Some: "s \<noteq> [] \<Longrightarrow> or_else (Some s) d = s"
  by (simp add: or_else_def)

lemma GET_unknown:
  "\<not> truthy (error q) \<Longrightarrow> code q = Some c \<Longrightarrow> c \<noteq> [] \<Longrightarrow> state q = Some s \<Longrightarrow> s \<noteq> [] \<Longrightarrow>
   lookup store s = None \<Longrightarrow>
   GET env fetch now store q =
     \<lparr> returned = json_response 400 InvalidOrExpiredState, oauthStates = store, fetched = [] \<rparr>"
  by (cases store) (simp_all add: GET_def lookup_def truthy_Some or_else_Some)

lemma GET_expired:
  "\<not> truthy (error q) \<Longrightarrow> code q = Some c \<Longrightarrow> c \<noteq> [] \<Longrightarrow> state q = Some s \<Longrightarrow> s \<noteq> [] \<Longrightarrow>
   m s = Some info \<Longrightarrow> timestamp info < now - TTL_ms \<Longrightarrow>
   GET env fetch now (Some m) q =
     \<lparr> returned = json_response 400 OAuthStateExpired, oauthStates = Some (m(s := None)),
       fetched = [] \<rparr>"
  by (simp add: GET_def truthy_Some or_else_Some)

lemma GET_try:
  "\<not> truthy (error q) \<Longrightarrow> code q = Some c \<Longrightarrow> c \<noteq> [] \<Longrightarrow> state q = Some s \<Longrightarrow> s \<noteq> [] \<Longrightarrow>
   m s = Some info \<Longrightarrow> \<not> timestamp info < now - TTL_ms \<Longrightarrow>
   GET env fetch now (Some m) q =
     (case try_block env fetch m c s info of
        (Inr r, store', reqs) \<Rightarrow> \<lparr> returned = r, oauthStates = store', fetched = reqs \<rparr>
      | (Inl t, store', reqs) \<Rightarrow>
          \<lparr> returned = json_response 500 (FailedToProcessCallback (errorMessage t)),
            oauthStates = store', fetched = reqs \<rparr>)"
  by (simp add: GET_def truthy_Some or_else_Some)

lemma try_block_store:
  "try_block env fetch m c s info = (r, store', reqs) \<Longrightarrow> store' = Some m \<or> store' = Some (m(s := None))"
  by (auto simp: try_block_def Let_def split: if_splits fetch_outcome.splits sum.splits)

lemma GET_store:
  "oauthStates (GET env fetch now store q) = store \<or>
   (\<exists>m s. store = Some m \<and> oauthStates (GET env fetch now store q) = Some (m(s := None)))"
proof (cases "\<not> truthy (error q) \<and> truthy (code q) \<and> truthy (state q)")
  case False
  then show ?thesis by (auto simp: GET_def)
next
  case True
  then obtain c s where cs: "code q = Some c" "c \<noteq> []" "state q = Some s" "s \<noteq> []" and e: "\<not> truthy (error q)"
    by (auto simp: truthy_def split: option.splits)
  show ?thesis
  proof (cases "lookup store s")
    case None
    then show ?thesis using GET_unknown[OF e cs None] by simp
  next
    case (Some info)
    then obtain m where m: "store = Some m" "m s = Some info"
      by (auto simp: lookup_def split: option.splits)
    show ?thesis
    proof (cases "timestamp info < now - TTL_ms")
      case True
      then show ?thesis using GET_expired[where m=m and s=s, OF e cs m(2) True] m by auto
    next
      case False
      obtain r st' reqs where tb: "try_block env fetch m c s info = (r, st', reqs)"
        by (cases "try_block env fetch m c s info") auto
      from try_block_store[OF tb] show ?thesis
        using GET_try[where m=m and s=s, OF e cs m(2) False, of env fetch] m tb
        by (cases r) auto
    qed
  qed
qed

lemma GET_keeps_absent:
  "lookup store s = None \<Longrightarrow> lookup (oauthStates (GET env fetch now store q)) s = None"
  using GET_store[of env fetch now store q]
  by (auto simp: lookup_def split: option.splits)

lemma after_callbacks_keeps_absent:
  "lookup store s = None \<Longrightarrow> lookup (after_callbacks store cbs) s = None"
  by (induction cbs arbitrary: store) (simp_all add: GET_keeps_absent)

section \<open>Parameter validation (lines 14 to 29)\<close>

text \<open>
  Claim C3, as stated, at the query \<open>?error=\<close>: the \<open>error\<close> parameter is
  present, its value is the empty string, the test \<open>if (error)\<close> on line 15 is false,
  and the handler goes on to the check of \<open>code\<close> and \<open>state\<close> and answers
  "Missing required OAuth parameters".
\<close>

theorem empty_error_param_counterexample:
  "error query_empty_error = Some [] \<and>
   returned (GET env_configured endpoint_grants 0 None query_empty_error) =
     json_response 400 (MissingRequiredParams True True)"
  by (simp add: GET_def query_empty_error_def truthy_def)

text \<open>
  Claim C3, amended: when the \<open>error\<close> parameter is present with a non-empty value,
  the handler answers 400 "OAuth authorization failed" with the provider's error and
  description, whatever \<open>code\<close> and \<open>state\<close> are; the store is untouched and no
  request is made. (So the check of \<open>code\<close> and \<open>state\<close> is reached only when
  \<open>error\<close> is absent or empty.)
\<close>

theorem error_param_precedence:
  "error q = Some e \<Longrightarrow> e \<noteq> [] \<Longrightarrow>
   GET env fetch now store q =
     \<lparr> returned = json_response 400 (OAuthAuthorizationFailed e (error_description q)),
       oauthStates = store, fetched = [] \<rparr>"
  by (simp add: GET_def truthy_Some or_else_Some)

text \<open>The scenario \<open>?error=access_denied\<close> with no \<open>code\<close>.\<close>

theorem error_param_precedence_witness:
  "error query_denied = Some ''access_denied'' \<and> ''access_denied'' \<noteq> [] \<and>
   code query_denied = None \<and>
   GET env_configured endpoint_grants 0 (Some (single ''s1'' (entry ''v1'' 0))) query_denied =
     \<lparr> returned = json_response 400
          (OAuthAuthorizationFailed ''access_denied'' (Some ''The user denied the request'')),
       oauthStates = Some (single ''s1'' (entry ''v1'' 0)), fetched = [] \<rparr>"
  using error_param_precedence [of query_denied "''access_denied''" env_configured
      endpoint_grants 0 "Some (single ''s1'' (entry ''v1'' 0))"]
  by (simp add: query_denied_def)

text \<open>
  Claim C8: without an \<open>error\<close> parameter, when \<open>code\<close> or \<open>state\<close> (or both)
  is absent, the handler answers 400 "Missing required OAuth parameters" with one flag
  for each of the two fields, true for a missing one. The answer does not depend on the
  store, which stays as it was, and no token request is made. The handler's test is
  \<open>!code || !state\<close>, so an empty value counts as a missing one.
\<close>

theorem missing_params:
  "\<not> truthy (error q) \<Longrightarrow> \<not> truthy (code q) \<or> \<not> truthy (state q) \<Longrightarrow>
   GET env fetch now store q =
     \<lparr> returned = json_response 400
          (MissingRequiredParams (\<not> truthy (code q)) (\<not> truthy (state q))),
       oauthStates = store, fetched = [] \<rparr>"
  by (simp add: GET_def)

text \<open>The query \<open>?code=abc123\<close>, which has no \<open>state\<close>.\<close>

theorem missing_params_witness:
  "\<not> truthy (error ((query ''abc123'' ''s1'')\<lparr>state := None\<rparr>)) \<and>
   truthy (code ((query ''abc123'' ''s1'')\<lparr>state := None\<rparr>)) \<and>
   \<not> truthy (state ((query ''abc123'' ''s1'')\<lparr>state := None\<rparr>)) \<and>
   GET env_configured endpoint_grants 0 (Some (single ''s1'' (entry ''v1'' 0)))
       ((query ''abc123'' ''s1'')\<lparr>state := None\<rparr>) =
     \<lparr> returned = json_response 400 (MissingRequiredParams False True),
       oauthStates = Some (single ''s1'' (entry ''v1'' 0)), fetched = [] \<rparr>"
  using missing_params [of "(query ''abc123'' ''s1'')\<lparr>state := None\<rparr>" env_configured
      endpoint_grants 0 "Some (single ''s1'' (entry ''v1'' 0))"]
  by (simp add: query_def truthy_def)

section \<open>The lookup (lines 31 to 37)\<close>

text \<open>
  Claim C9: when \<open>global.oauthStates\<close> is \<open>undefined\<close>, a callback that carries
  \<open>code\<close> and \<open>state\<close> (and passes the checks before the lookup) gets the answer
  400 "Invalid or expired OAuth state", with no exception: the same answer as on a map
  that does not hold the state.
\<close>

theorem undefined_store_is_invalid_state:
  "\<not> truthy (error q) \<Longrightarrow> code q = Some c \<Longrightarrow> c \<noteq> [] \<Longrightarrow> state q = Some s \<Longrightarrow> s \<noteq> [] \<Longrightarrow>
   GET env fetch now None q =
     \<lparr> returned = json_response 400 InvalidOrExpiredState, oauthStates = None, fetched = [] \<rparr>
   \<and> (m s = None \<longrightarrow>
        returned (GET env fetch now (Some m) q) = returned (GET env fetch now None q))"
  by (simp add: GET_def truthy_Some or_else_Some)

text \<open>The callback \<open>?code=abc123&state=s1\<close> on no store, and on a store holding \<open>s9\<close> only.\<close>

theorem undefined_store_is_invalid_state_witness:
  "\<not> truthy (error (query ''abc123'' ''s1'')) \<and>
   code (query ''abc123'' ''s1'') = Some ''abc123'' \<and> ''abc123'' \<noteq> [] \<and>
   state (query ''abc123'' ''s1'') = Some ''s1'' \<and> ''s1'' \<noteq> [] \<and>
   single ''s9'' (entry ''v9'' 0) ''s1'' = None \<and>
   GET env_configured endpoint_grants 0 None (query ''abc123'' ''s1'') =
     \<lparr> returned = json_response 400 InvalidOrExpiredState, oauthStates = None, fetched = [] \<rparr> \<and>
   returned (GET env_configured endpoint_grants 0 (Some (single ''s9'' (entry ''v9'' 0)))
       (query ''abc123'' ''s1'')) =
     returned (GET env_configured endpoint_grants 0 None (query ''abc123'' ''s1''))"
  using undefined_store_is_invalid_state [of "query ''abc123'' ''s1''" "''abc123''" "''s1''"
      env_configured endpoint_grants 0 "single ''s9'' (entry ''v9'' 0)"]
  by (simp add: query_def truthy_def single_def)

section \<open>The exchange (lines 48 to 118)\<close>

text \<open>
  Claim C10: when \<open>OAUTH_CLIENT_ID\<close> or \<open>OAUTH_CLIENT_SECRET\<close> is not set (or is
  empty), a callback that passes the parameter checks and whose state has an entry
  within its lifetime gets the answer 500 "OAuth not configured"; no token request has
  been made, and the entry is still in the store.
\<close>

theorem unconfigured_credentials:
  "\<not> truthy (error q) \<Longrightarrow> code q = Some c \<Longrightarrow> c \<noteq> [] \<Longrightarrow> state q = Some s \<Longrightarrow> s \<noteq> [] \<Longrightarrow>
   m s = Some info \<Longrightarrow> now - timestamp info \<le> 600000 \<Longrightarrow>
   \<not> truthy (OAUTH_CLIENT_ID env) \<or> \<not> truthy (OAUTH_CLIENT_SECRET env) \<Longrightarrow>
   GET env fetch now (Some m) q =
     \<lparr> returned = json_response 500 OAuthNotConfigured, oauthStates = Some m, fetched = [] \<rparr>
   \<and> lookup (oauthStates (GET env fetch now (Some m) q)) s = Some info"
  by (simp add: GET_def truthy_Some or_else_Some TTL_ms_def try_block_def lookup_def)

text \<open>The callback \<open>?code=abc123&state=s1\<close> one second after \<open>s1\<close> was stored, with no credentials.\<close>

theorem unconfigured_credentials_witness:
  "\<not> truthy (error (query ''abc123'' ''s1'')) \<and>
   code (query ''abc123'' ''s1'') = Some ''abc123'' \<and> ''abc123'' \<noteq> [] \<and>
   state (query ''abc123'' ''s1'') = Some ''s1'' \<and> ''s1'' \<noteq> [] \<and>
   single ''s1'' (entry ''v1'' 0) ''s1'' = Some (entry ''v1'' 0) \<and>
   1000 - timestamp (entry ''v1'' 0) \<le> 600000 \<and>
   \<not> truthy (OAUTH_CLIENT_ID env_unconfigured) \<and>
   GET env_unconfigured endpoint_grants 1000 (Some (single ''s1'' (entry ''v1'' 0)))
       (query ''abc123'' ''s1'') =
     \<lparr> returned = json_response 500 OAuthNotConfigured,
       oauthStates = Some (single ''s1'' (entry ''v1'' 0)), fetched = [] \<rparr> \<and>
   lookup (oauthStates (GET env_unconfigured endpoint_grants 1000
       (Some (single ''s1'' (entry ''v1'' 0))) (query ''abc123'' ''s1''))) ''s1'' =
     Some (entry ''v1'' 0)"
  using unconfigured_credentials [of "query ''abc123'' ''s1''" "''abc123''" "''s1''"
      "single ''s1'' (entry ''v1'' 0)" "entry ''v1'' 0" 1000 env_unconfigured endpoint_grants]
  by (simp add: query_def truthy_def single_def entry_def env_unconfigured_def lookup_def)

section \<open>The try block, case by case\<close>

lemma read_tokens_value:
  "j \<noteq> JNull \<Longrightarrow>
   read_tokens j =
     Inr \<lparr> access_token = member j ''access_token'', token_type = member j ''token_type'',
           expires_in = member j ''expires_in'', refresh_token = member j ''refresh_token'',
           scope = member j ''scope'' \<rparr>"
  by (cases j) (simp_all add: read_tokens_def)

lemma try_block_rejects:
  "truthy (OAUTH_CLIENT_ID env) \<Longrightarrow> truthy (OAUTH_CLIENT_SECRET env) \<Longrightarrow>
   fetch (token_post env c info) = Rejects t \<Longrightarrow>
   try_block env fetch m c s info = (Inl t, Some m, [token_post env c info])"
  by (simp add: try_block_def)

lemma try_block_not_ok:
  "truthy (OAUTH_CLIENT_ID env) \<Longrightarrow> truthy (OAUTH_CLIENT_SECRET env) \<Longrightarrow>
   fetch (token_post env c info) = Resolves r \<Longrightarrow> \<not> ok r \<Longrightarrow> resp_text r = Inr b \<Longrightarrow>
   try_block env fetch m c s info =
     (Inr (json_response 400 (TokenExchangeFailed (resp_status r) b)), Some m,
      [token_post env c info])"
  by (simp add: try_block_def)

lemma try_block_granted:
  "truthy (OAUTH_CLIENT_ID env) \<Longrightarrow> truthy (OAUTH_CLIENT_SECRET env) \<Longrightarrow>
   fetch (token_post env c info) = Resolves r \<Longrightarrow> ok r \<Longrightarrow> resp_json r = Inr j \<Longrightarrow>
   j \<noteq> JNull \<Longrightarrow> example j = Inr ex \<Longrightarrow>
   try_block env fetch m c s info =
     (Inr (json_response 200 (AuthorizationSuccessful
        \<lparr> access_token = member j ''access_token'', token_type = member j ''token_type'',
          expires_in = member j ''expires_in'', refresh_token = member j ''refresh_token'',
          scope = member j ''scope'' \<rparr> ex)),
      Some (m(s := None)), [token_post env c info])"
  by (simp add: try_block_def read_tokens_value)

lemma try_block_parsed:
  "truthy (OAUTH_CLIENT_ID env) \<Longrightarrow> truthy (OAUTH_CLIENT_SECRET env) \<Longrightarrow>
   fetch (token_post env c info) = Resolves r \<Longrightarrow> ok r \<Longrightarrow> resp_json r = Inr j \<Longrightarrow>
   fst (snd (try_block env fetch m c s info)) = Some (m(s := None))"
  by (simp add: try_block_def Let_def split: sum.splits)

lemma try_block_fetched:
  "truthy (OAUTH_CLIENT_ID env) \<Longrightarrow> truthy (OAUTH_CLIENT_SECRET env) \<Longrightarrow>
   snd (snd (try_block env fetch m c s info)) = [token_post env c info]"
  by (simp add: try_block_def Let_def split: fetch_outcome.splits sum.splits)

lemma try_block_never_expired:
  "try_block env fetch m c s info = (Inr r, store', reqs) \<Longrightarrow> body r \<noteq> OAuthStateExpired"
  by (auto simp: try_block_def Let_def json_response_def
      split: if_splits fetch_outcome.splits sum.splits)

lemma GET_fetched:
  assumes "\<not> truthy (error q)" "code q = Some c" "c \<noteq> []" "state q = Some s" "s \<noteq> []"
    and "m s = Some info" "\<not> timestamp info < now - TTL_ms"
    and "truthy (OAUTH_CLIENT_ID env)" "truthy (OAUTH_CLIENT_SECRET env)"
  shows "fetched (GET env fetch now (Some m) q) = [token_post env c info]"
proof -
  obtain r st' reqs where tb: "try_block env fetch m c s info = (r, st', reqs)"
    by (cases "try_block env fetch m c s info") auto
  with try_block_fetched[OF assms(8,9), of fetch m c s info]
  have "reqs = [token_post env c info]" by simp
  with GET_try[where m=m and s=s, OF assms(1-5) assms(6) assms(7), of env fetch] tb
  show ?thesis by (cases r) simp_all
qed

lemma GET_parsed:
  assumes "\<not> truthy (error q)" "code q = Some c" "c \<noteq> []" "state q = Some s" "s \<noteq> []"
    and "m s = Some info" "\<not> timestamp info < now - TTL_ms"
    and "truthy (OAUTH_CLIENT_ID env)" "truthy (OAUTH_CLIENT_SECRET env)"
    and "fetch (token_post env c info) = Resolves r" "ok r" "resp_json r = Inr j"
  shows "oauthStates (GET env fetch now (Some m) q) = Some (m(s := None))"
proof -
  obtain x st' reqs where tb: "try_block env fetch m c s info = (x, st', reqs)"
    by (cases "try_block env fetch m c s info") auto
  with try_block_parsed[where fetch=fetch, OF assms(8-12), of m s]
  have "st' = Some (m(s := None))" by simp
  with GET_try[where m=m and s=s, OF assms(1-5) assms(6) assms(7), of env fetch] tb
  show ?thesis by (cases x) simp_all
qed

text \<open>
  A success response whose \<open>access_token\<close> is an object with a \<open>toString\<close> member:
  line 108 throws after line 92 has deleted the entry, and the answer is 500.
\<close>

lemma odd_token_is_500:
  "GET env_configured endpoint_odd 1000 (Some (single ''s1'' (entry ''v1'' 0)))
       (query ''abc123'' ''s1'') =
     \<lparr> returned = json_response 500
          (FailedToProcessCallback ''Cannot convert object to primitive value''),
       oauthStates = Some ((single ''s1'' (entry ''v1'' 0))(''s1'' := None)),
       fetched = [token_post env_configured ''abc123'' (entry ''v1'' 0)] \<rparr>"
  by (simp add: GET_def try_block_def query_def truthy_def or_else_def single_def entry_def
      env_configured_def endpoint_odd_def odd_json_def ok_def TTL_ms_def read_tokens_def
      example_def member_def convert_message_def errorMessage_def)

lemma GET_never_expired:
  assumes "\<not> truthy (error q)" "code q = Some c" "c \<noteq> []" "state q = Some s" "s \<noteq> []"
    and "m s = Some info" "\<not> timestamp info < now - TTL_ms"
  shows "body (returned (GET env fetch now (Some m) q)) \<noteq> OAuthStateExpired"
proof -
  obtain r st' reqs where tb: "try_block env fetch m c s info = (r, st', reqs)"
    by (cases "try_block env fetch m c s info") auto
  show ?thesis
  proof (cases r)
    case (Inl t)
    with GET_try[where m=m and s=s, OF assms(1-5) assms(6) assms(7), of env fetch] tb
    show ?thesis by (simp add: json_response_def)
  next
    case (Inr resp)
    with try_block_never_expired[of env fetch m c s info resp st' reqs] tb
    have "body resp \<noteq> OAuthStateExpired" by simp
    with GET_try[where m=m and s=s, OF assms(1-5) assms(6) assms(7), of env fetch] tb Inr
    show ?thesis by simp
  qed
qed

section \<open>Expiry (lines 39 to 46)\<close>

text \<open>
  Claim C5: for a callback that passes the parameter checks and whose state has an entry,
  the answer is "OAuth state expired" exactly when the entry's age
  \<open>now - timestamp\<close> is greater than ten minutes. At an age of exactly ten minutes
  the entry is still accepted: with the client credentials set, the handler makes the
  token request.
\<close>

theorem expiry_is_strict:
  assumes "\<not> truthy (error q)" "code q = Some c" "c \<noteq> []" "state q = Some s" "s \<noteq> []"
    and "m s = Some info"
  shows "(body (returned (GET env fetch now (Some m) q)) = OAuthStateExpired
            \<longleftrightarrow> now - timestamp info > 10 * 60 * 1000)
         \<and> (now - timestamp info = 10 * 60 * 1000 \<and> truthy (OAUTH_CLIENT_ID env) \<and>
              truthy (OAUTH_CLIENT_SECRET env)
              \<longrightarrow> fetched (GET env fetch now (Some m) q) = [token_post env c info])"
proof (cases "timestamp info < now - TTL_ms")
  case True
  with GET_expired[where m=m and s=s, OF assms(1-5) assms(6) True, of env fetch]
  show ?thesis by (simp add: json_response_def TTL_ms_def)
next
  case False
  with GET_never_expired[where m=m and s=s, OF assms(1-5) assms(6) False, of env fetch]
    GET_fetched[where m=m and s=s, OF assms(1-5) assms(6) False, of env fetch]
  show ?thesis by (auto simp: TTL_ms_def)
qed

text \<open>An entry stored at time 0 and presented at 600000 ms, its age exactly the limit.\<close>

theorem expiry_is_strict_witness:
  "\<not> truthy (error (query ''abc123'' ''s1'')) \<and>
   code (query ''abc123'' ''s1'') = Some ''abc123'' \<and> ''abc123'' \<noteq> [] \<and>
   state (query ''abc123'' ''s1'') = Some ''s1'' \<and> ''s1'' \<noteq> [] \<and>
   single ''s1'' (entry ''v1'' 0) ''s1'' = Some (entry ''v1'' 0) \<and>
   600000 - timestamp (entry ''v1'' 0) = 10 * 60 * 1000 \<and>
   truthy (OAUTH_CLIENT_ID env_configured) \<and> truthy (OAUTH_CLIENT_SECRET env_configured) \<and>
   body (returned (GET env_configured endpoint_grants 600000
       (Some (single ''s1'' (entry ''v1'' 0))) (query ''abc123'' ''s1''))) \<noteq> OAuthStateExpired \<and>
   fetched (GET env_configured endpoint_grants 600000
       (Some (single ''s1'' (entry ''v1'' 0))) (query ''abc123'' ''s1'')) =
     [token_post env_configured ''abc123'' (entry ''v1'' 0)]"
  using expiry_is_strict [of "query ''abc123'' ''s1''" "''abc123''" "''s1''"
      "single ''s1'' (entry ''v1'' 0)" "entry ''v1'' 0" env_configured endpoint_grants 600000]
  by (simp add: query_def truthy_def single_def entry_def env_configured_def)

text \<open>
  Claim C4: a callback whose state has an entry older than ten minutes gets the answer
  400 "OAuth state expired", the entry is deleted and no token request is made. Any later
  callback with the same state, at any time and after any number of other callbacks, gets
  400 "Invalid or expired OAuth state".
\<close>

theorem expired_state_is_deleted:
  assumes "\<not> truthy (error q)" "code q = Some c" "c \<noteq> []" "state q = Some s" "s \<noteq> []"
    and "m s = Some info" "now - timestamp info > 10 * 60 * 1000"
    and "\<not> truthy (error q')" "code q' = Some c'" "c' \<noteq> []" "state q' = Some s"
  shows "GET env fetch now (Some m) q =
           \<lparr> returned = json_response 400 OAuthStateExpired,
             oauthStates = Some (m(s := None)), fetched = [] \<rparr>
         \<and> GET env' fetch' now' (after_callbacks (Some (m(s := None))) cbs) q' =
           \<lparr> returned = json_response 400 InvalidOrExpiredState,
             oauthStates = after_callbacks (Some (m(s := None))) cbs, fetched = [] \<rparr>"
proof -
  from assms(7) have old: "timestamp info < now - TTL_ms"
    by (simp add: TTL_ms_def)
  have first: "GET env fetch now (Some m) q =
      \<lparr> returned = json_response 400 OAuthStateExpired,
        oauthStates = Some (m(s := None)), fetched = [] \<rparr>"
    by (rule GET_expired[where m=m and s=s, OF assms(1-5) assms(6) old])
  have "lookup (Some (m(s := None))) s = None"
    by (simp add: lookup_def)
  then have "lookup (after_callbacks (Some (m(s := None))) cbs) s = None"
    by (rule after_callbacks_keeps_absent)
  from GET_unknown[OF assms(8-10) assms(11) assms(5) this] first
  show ?thesis by simp
qed

text \<open>
  The scenario of the specification: \<open>s3\<close> stored at time 0, presented one second
  after the limit, then twice more.
\<close>

theorem expired_state_is_deleted_witness:
  "\<not> truthy (error (query ''abc123'' ''s3'')) \<and>
   code (query ''abc123'' ''s3'') = Some ''abc123'' \<and> ''abc123'' \<noteq> [] \<and>
   state (query ''abc123'' ''s3'') = Some ''s3'' \<and> ''s3'' \<noteq> [] \<and>
   single ''s3'' (entry ''v3'' 0) ''s3'' = Some (entry ''v3'' 0) \<and>
   601000 - timestamp (entry ''v3'' 0) > 10 * 60 * 1000 \<and>
   GET env_configured endpoint_grants 601000 (Some (single ''s3'' (entry ''v3'' 0)))
       (query ''abc123'' ''s3'') =
     \<lparr> returned = json_response 400 OAuthStateExpired,
       oauthStates = Some ((single ''s3'' (entry ''v3'' 0))(''s3'' := None)), fetched = [] \<rparr> \<and>
   GET env_configured endpoint_grants 601000
       (after_callbacks (Some ((single ''s3'' (entry ''v3'' 0))(''s3'' := None)))
          [a_callback 601000 (query ''abc123'' ''s3'')])
       (query ''abc123'' ''s3'') =
     \<lparr> returned = json_response 400 InvalidOrExpiredState,
       oauthStates =
         after_callbacks (Some ((single ''s3'' (entry ''v3'' 0))(''s3'' := None)))
           [a_callback 601000 (query ''abc123'' ''s3'')],
       fetched = [] \<rparr>"
proof -
  have h: "\<not> truthy (error (query ''abc123'' ''s3''))"
    "code (query ''abc123'' ''s3'') = Some ''abc123''" "''abc123'' \<noteq> []"
    "state (query ''abc123'' ''s3'') = Some ''s3''" "''s3'' \<noteq> []"
    "single ''s3'' (entry ''v3'' 0) ''s3'' = Some (entry ''v3'' 0)"
    "601000 - timestamp (entry ''v3'' 0) > 10 * 60 * 1000"
    by (simp_all add: query_def truthy_def single_def entry_def)
  note r = expired_state_is_deleted [of "query ''abc123'' ''s3''" "''abc123''" "''s3''"
      "single ''s3'' (entry ''v3'' 0)" "entry ''v3'' 0" 601000 "query ''abc123'' ''s3''"
      "''abc123''" env_configured endpoint_grants env_configured endpoint_grants 601000
      "[a_callback 601000 (query ''abc123'' ''s3'')]", OF h h(1-4)]
  from h r show ?thesis by blast
qed

section \<open>The token request and its outcomes (lines 60 to 118)\<close>

text \<open>
  Claim C6: once the handler makes the token request, a response with a status outside
  200 to 299 gives the answer 400 "Token exchange failed" carrying that status and the
  text of the provider's response, and a \<open>fetch\<close> that throws (a network error, a
  timeout) gives the answer 500 "Failed to process OAuth callback". In both cases the
  handler has made that one request and no other.
\<close>

theorem exchange_failure_modes:
  assumes "\<not> truthy (error q)" "code q = Some c" "c \<noteq> []" "state q = Some s" "s \<noteq> []"
    and "m s = Some info" "now - timestamp info \<le> 10 * 60 * 1000"
    and "truthy (OAUTH_CLIENT_ID env)" "truthy (OAUTH_CLIENT_SECRET env)"
  shows "(fetch (token_post env c info) = Resolves r \<and> \<not> ok r \<and> resp_text r = Inr b \<longrightarrow>
           GET env fetch now (Some m) q =
             \<lparr> returned = json_response 400 (TokenExchangeFailed (resp_status r) b),
               oauthStates = Some m, fetched = [token_post env c info] \<rparr>)
         \<and> (fetch (token_post env c info) = Rejects t \<longrightarrow>
           GET env fetch now (Some m) q =
             \<lparr> returned = json_response 500 (FailedToProcessCallback (errorMessage t)),
               oauthStates = Some m, fetched = [token_post env c info] \<rparr>)"
proof -
  from assms(7) have fresh: "\<not> timestamp info < now - TTL_ms"
    by (simp add: TTL_ms_def)
  note G = GET_try[where m=m and s=s, OF assms(1-5) assms(6) fresh, of env fetch]
  show ?thesis
  proof (intro conjI impI)
    assume a: "fetch (token_post env c info) = Resolves r \<and> \<not> ok r \<and> resp_text r = Inr b"
    then have "try_block env fetch m c s info =
        (Inr (json_response 400 (TokenExchangeFailed (resp_status r) b)), Some m,
         [token_post env c info])"
      using try_block_not_ok[OF assms(8,9)] by blast
    with G show "GET env fetch now (Some m) q =
        \<lparr> returned = json_response 400 (TokenExchangeFailed (resp_status r) b),
          oauthStates = Some m, fetched = [token_post env c info] \<rparr>"
      by simp
  next
    assume "fetch (token_post env c info) = Rejects t"
    then have "try_block env fetch m c s info = (Inl t, Some m, [token_post env c info])"
      by (rule try_block_rejects[OF assms(8,9)])
    with G show "GET env fetch now (Some m) q =
        \<lparr> returned = json_response 500 (FailedToProcessCallback (errorMessage t)),
          oauthStates = Some m, fetched = [token_post env c info] \<rparr>"
      by simp
  qed
qed

text \<open>A token endpoint answering 400 \<open>invalid_grant\<close>, and one that cannot be reached.\<close>

theorem exchange_failure_modes_witness:
  "\<not> truthy (error (query ''abc123'' ''s2'')) \<and>
   code (query ''abc123'' ''s2'') = Some ''abc123'' \<and> ''abc123'' \<noteq> [] \<and>
   state (query ''abc123'' ''s2'') = Some ''s2'' \<and> ''s2'' \<noteq> [] \<and>
   single ''s2'' (entry ''v2'' 0) ''s2'' = Some (entry ''v2'' 0) \<and>
   1000 - timestamp (entry ''v2'' 0) \<le> 10 * 60 * 1000 \<and>
   truthy (OAUTH_CLIENT_ID env_configured) \<and> truthy (OAUTH_CLIENT_SECRET env_configured) \<and>
   GET env_configured endpoint_rejects 1000 (Some (single ''s2'' (entry ''v2'' 0)))
       (query ''abc123'' ''s2'') =
     \<lparr> returned = json_response 400 (TokenExchangeFailed 400 ''invalid_grant''),
       oauthStates = Some (single ''s2'' (entry ''v2'' 0)),
       fetched = [token_post env_configured ''abc123'' (entry ''v2'' 0)] \<rparr> \<and>
   GET env_configured endpoint_unreachable 1000 (Some (single ''s2'' (entry ''v2'' 0)))
       (query ''abc123'' ''s2'') =
     \<lparr> returned = json_response 500 (FailedToProcessCallback ''fetch failed''),
       oauthStates = Some (single ''s2'' (entry ''v2'' 0)),
       fetched = [token_post env_configured ''abc123'' (entry ''v2'' 0)] \<rparr>"
proof -
  have h: "\<not> truthy (error (query ''abc123'' ''s2''))"
    "code (query ''abc123'' ''s2'') = Some ''abc123''" "''abc123'' \<noteq> []"
    "state (query ''abc123'' ''s2'') = Some ''s2''" "''s2'' \<noteq> []"
    "single ''s2'' (entry ''v2'' 0) ''s2'' = Some (entry ''v2'' 0)"
    "1000 - timestamp (entry ''v2'' 0) \<le> 10 * 60 * 1000"
    "truthy (OAUTH_CLIENT_ID env_configured)" "truthy (OAUTH_CLIENT_SECRET env_configured)"
    by (simp_all add: query_def truthy_def single_def entry_def env_configured_def)
  have a: "GET env_configured endpoint_rejects 1000 (Some (single ''s2'' (entry ''v2'' 0)))
       (query ''abc123'' ''s2'') =
     \<lparr> returned = json_response 400 (TokenExchangeFailed 400 ''invalid_grant''),
       oauthStates = Some (single ''s2'' (entry ''v2'' 0)),
       fetched = [token_post env_configured ''abc123'' (entry ''v2'' 0)] \<rparr>"
    using exchange_failure_modes [of "query ''abc123'' ''s2''" "''abc123''" "''s2''"
        "single ''s2'' (entry ''v2'' 0)" "entry ''v2'' 0" 1000 env_configured endpoint_rejects
        "\<lparr> resp_status = 400, resp_text = Inr ''invalid_grant'',
           resp_json = Inl (ErrorObject ''Unexpected token'') \<rparr>" "''invalid_grant''",
        OF h, THEN conjunct1]
    by (simp add: endpoint_rejects_def ok_def)
  have b: "GET env_configured endpoint_unreachable 1000 (Some (single ''s2'' (entry ''v2'' 0)))
       (query ''abc123'' ''s2'') =
     \<lparr> returned = json_response 500 (FailedToProcessCallback ''fetch failed''),
       oauthStates = Some (single ''s2'' (entry ''v2'' 0)),
       fetched = [token_post env_configured ''abc123'' (entry ''v2'' 0)] \<rparr>"
    using exchange_failure_modes [of "query ''abc123'' ''s2''" "''abc123''" "''s2''"
        "single ''s2'' (entry ''v2'' 0)" "entry ''v2'' 0" 1000 env_configured
        endpoint_unreachable _ _ "ErrorObject ''fetch failed''",
        OF h, THEN conjunct2]
    by (simp add: endpoint_unreachable_def errorMessage_def)
  from h a b show ?thesis by blast
qed

text \<open>
  Claim C7: a callback that reaches the exchange with the client credentials set makes
  exactly one request: a POST to the token endpoint whose form body holds
  \<open>grant_type=authorization_code\<close>, the configured client id and secret, the
  callback's code, the configured redirect URI (\<open>OAUTH_REDIRECT_URI\<close>, or else the
  callback path under \<open>VERCEL_URL\<close>, or else under \<open>http://localhost:3000\<close>) and
  the code verifier of the entry found. On a success response whose body is a JSON
  object the answer carries \<open>access_token\<close>, \<open>token_type\<close>, \<open>expires_in\<close>,
  \<open>refresh_token\<close> and \<open>scope\<close> as the body gives them (absent when the body
  does not), provided the access token can be printed into the usage example of line 108.
\<close>

theorem token_request_and_result:
  assumes "\<not> truthy (error q)" "code q = Some c" "c \<noteq> []" "state q = Some s" "s \<noteq> []"
    and "m s = Some info" "now - timestamp info \<le> 10 * 60 * 1000"
    and "OAUTH_CLIENT_ID env = Some clientId" "clientId \<noteq> []"
    and "OAUTH_CLIENT_SECRET env = Some clientSecret" "clientSecret \<noteq> []"
  shows "fetched (GET env fetch now (Some m) q) =
           [\<lparr> url = ''https://api.anthropic.com/oauth/token'', http_method = ''POST'',
        headers = [(''Content-Type'', ''application/x-www-form-urlencoded''),
                   (''Accept'', ''application/json'')],
        form_body =
          [(''grant_type'', ''authorization_code''), (''client_id'', clientId),
           (''client_secret'', clientSecret), (''code'', c),
           (''redirect_uri'', 
             (case OAUTH_REDIRECT_URI env of
                Some (x # xs) \<Rightarrow> x # xs
              | _ \<Rightarrow>
                  (case VERCEL_URL env of
                     Some (y # ys) \<Rightarrow> y # ys
                   | _ \<Rightarrow> ''http://localhost:3000'') @ ''/api/oauth/callback'')),
           (''code_verifier'', codeVerifier info)] \<rparr>]
         \<and> (fetch (token_post env c info) = Resolves r \<and> ok r \<and>
              resp_json r = Inr (JObject kvs) \<and>
              (case map_of (rev kvs) ''access_token'' of
              None \<Rightarrow> Inr ''undefined'' | Some a \<Rightarrow> to_string a) = Inr txt \<longrightarrow>
              returned (GET env fetch now (Some m) q) =
                json_response 200 (AuthorizationSuccessful
                  \<lparr> access_token = map_of (rev kvs) ''access_token'',
             token_type = map_of (rev kvs) ''token_type'',
             expires_in = map_of (rev kvs) ''expires_in'',
             refresh_token = map_of (rev kvs) ''refresh_token'',
             scope = map_of (rev kvs) ''scope'' \<rparr>
                  (''Authorization: Bearer '' @ txt)))"
proof -
  from assms(7) have fresh: "\<not> timestamp info < now - TTL_ms"
    by (simp add: TTL_ms_def)
  from assms(8-11) have conf: "truthy (OAUTH_CLIENT_ID env)" "truthy (OAUTH_CLIENT_SECRET env)"
    by (simp_all add: truthy_Some)
  have uri: "redirectUri env =
      (case OAUTH_REDIRECT_URI env of
                Some (x # xs) \<Rightarrow> x # xs
              | _ \<Rightarrow>
                  (case VERCEL_URL env of
                     Some (y # ys) \<Rightarrow> y # ys
                   | _ \<Rightarrow> ''http://localhost:3000'') @ ''/api/oauth/callback'')"
    by (simp add: redirectUri_def or_else_def split: option.splits list.splits)
  have req: "[token_post env c info] =
      [\<lparr> url = ''https://api.anthropic.com/oauth/token'', http_method = ''POST'',
        headers = [(''Content-Type'', ''application/x-www-form-urlencoded''),
                   (''Accept'', ''application/json'')],
        form_body =
          [(''grant_type'', ''authorization_code''), (''client_id'', clientId),
           (''client_secret'', clientSecret), (''code'', c),
           (''redirect_uri'', 
             (case OAUTH_REDIRECT_URI env of
                Some (x # xs) \<Rightarrow> x # xs
              | _ \<Rightarrow>
                  (case VERCEL_URL env of
                     Some (y # ys) \<Rightarrow> y # ys
                   | _ \<Rightarrow> ''http://localhost:3000'') @ ''/api/oauth/callback'')),
           (''code_verifier'', codeVerifier info)] \<rparr>]"
    using assms(8-11)
    by (simp add: token_post_def tokenData_def token_endpoint_def or_else_Some uri)
  have "fetched (GET env fetch now (Some m) q) = [token_post env c info]"
    by (rule GET_fetched[where m=m and s=s, OF assms(1-5) assms(6) fresh conf])
  then have one: "fetched (GET env fetch now (Some m) q) =
      [\<lparr> url = ''https://api.anthropic.com/oauth/token'', http_method = ''POST'',
        headers = [(''Content-Type'', ''application/x-www-form-urlencoded''),
                   (''Accept'', ''application/json'')],
        form_body =
          [(''grant_type'', ''authorization_code''), (''client_id'', clientId),
           (''client_secret'', clientSecret), (''code'', c),
           (''redirect_uri'', 
             (case OAUTH_REDIRECT_URI env of
                Some (x # xs) \<Rightarrow> x # xs
              | _ \<Rightarrow>
                  (case VERCEL_URL env of
                     Some (y # ys) \<Rightarrow> y # ys
                   | _ \<Rightarrow> ''http://localhost:3000'') @ ''/api/oauth/callback'')),
           (''code_verifier'', codeVerifier info)] \<rparr>]"
    by (simp only: req)
  note G = GET_try[where m=m and s=s, OF assms(1-5) assms(6) fresh, of env fetch]
  have two: "returned (GET env fetch now (Some m) q) =
      json_response 200 (AuthorizationSuccessful
        \<lparr> access_token = map_of (rev kvs) ''access_token'',
             token_type = map_of (rev kvs) ''token_type'',
             expires_in = map_of (rev kvs) ''expires_in'',
             refresh_token = map_of (rev kvs) ''refresh_token'',
             scope = map_of (rev kvs) ''scope'' \<rparr>
        (''Authorization: Bearer '' @ txt))"
    if p: "fetch (token_post env c info) = Resolves r \<and> ok r \<and>
        resp_json r = Inr (JObject kvs) \<and>
        (case map_of (rev kvs) ''access_token'' of
              None \<Rightarrow> Inr ''undefined'' | Some a \<Rightarrow> to_string a) = Inr txt"
  proof -
    from p have ex: "example (JObject kvs) = Inr (''Authorization: Bearer '' @ txt)"
      by (auto simp: example_def member_def split: option.splits)
    have nn: "JObject kvs \<noteq> JNull" by simp
    from p have f: "fetch (token_post env c info) = Resolves r" "ok r"
      "resp_json r = Inr (JObject kvs)" by simp_all
    have "try_block env fetch m c s info =
      (Inr (json_response 200 (AuthorizationSuccessful
        \<lparr> access_token = member (JObject kvs) ''access_token'',
          token_type = member (JObject kvs) ''token_type'',
          expires_in = member (JObject kvs) ''expires_in'',
          refresh_token = member (JObject kvs) ''refresh_token'',
          scope = member (JObject kvs) ''scope'' \<rparr> (''Authorization: Bearer '' @ txt))),
       Some (m(s := None)), [token_post env c info])"
      by (rule try_block_granted[where fetch=fetch, OF conf f nn ex])
    with G show ?thesis by (simp add: member_def)
  qed
  from one two show ?thesis by blast
qed

text \<open>
  The end-to-end scenario of the specification, one second after \<open>s1\<close> was stored,
  with \<open>OAUTH_REDIRECT_URI\<close> set; and the request made when only \<open>VERCEL_URL\<close> is.
\<close>

theorem token_request_and_result_witness:
  "\<not> truthy (error (query ''abc123'' ''s1'')) \<and>
   code (query ''abc123'' ''s1'') = Some ''abc123'' \<and> ''abc123'' \<noteq> [] \<and>
   state (query ''abc123'' ''s1'') = Some ''s1'' \<and> ''s1'' \<noteq> [] \<and>
   single ''s1'' (entry ''v1'' 0) ''s1'' = Some (entry ''v1'' 0) \<and>
   1000 - timestamp (entry ''v1'' 0) \<le> 10 * 60 * 1000 \<and>
   OAUTH_CLIENT_ID env_redirect = Some ''client-1'' \<and> ''client-1'' \<noteq> [] \<and>
   OAUTH_CLIENT_SECRET env_redirect = Some ''secret-1'' \<and> ''secret-1'' \<noteq> [] \<and>
   OAUTH_REDIRECT_URI env_redirect = Some ''https://sheets.example/api/oauth/callback'' \<and>
   OAUTH_REDIRECT_URI env_vercel = None \<and>
   VERCEL_URL env_vercel = Some ''https://sheets.vercel.example'' \<and>
   fetched (GET env_redirect endpoint_grants 1000 (Some (single ''s1'' (entry ''v1'' 0)))
       (query ''abc123'' ''s1'')) =
     [\<lparr> url = ''https://api.anthropic.com/oauth/token'', http_method = ''POST'',
        headers = [(''Content-Type'', ''application/x-www-form-urlencoded''),
                   (''Accept'', ''application/json'')],
        form_body =
          [(''grant_type'', ''authorization_code''), (''client_id'', ''client-1''),
           (''client_secret'', ''secret-1''), (''code'', ''abc123''),
           (''redirect_uri'', ''https://sheets.example/api/oauth/callback''),
           (''code_verifier'', ''v1'')] \<rparr>] \<and>
   returned (GET env_redirect endpoint_grants 1000 (Some (single ''s1'' (entry ''v1'' 0)))
       (query ''abc123'' ''s1'')) =
     json_response 200 (AuthorizationSuccessful
       \<lparr> access_token = Some (JString ''tok''), token_type = Some (JString ''bearer''),
         expires_in = Some (JNumber ''3600''), refresh_token = None, scope = None \<rparr>
       ''Authorization: Bearer tok'') \<and>
   fetched (GET env_vercel endpoint_grants 1000 (Some (single ''s1'' (entry ''v1'' 0)))
       (query ''abc123'' ''s1'')) =
     [\<lparr> url = ''https://api.anthropic.com/oauth/token'', http_method = ''POST'',
        headers = [(''Content-Type'', ''application/x-www-form-urlencoded''),
                   (''Accept'', ''application/json'')],
        form_body =
          [(''grant_type'', ''authorization_code''), (''client_id'', ''client-1''),
           (''client_secret'', ''secret-1''), (''code'', ''abc123''),
           (''redirect_uri'', ''https://sheets.vercel.example/api/oauth/callback''),
           (''code_verifier'', ''v1'')] \<rparr>]"
proof -
  have h: "\<not> truthy (error (query ''abc123'' ''s1''))"
    "code (query ''abc123'' ''s1'') = Some ''abc123''" "''abc123'' \<noteq> []"
    "state (query ''abc123'' ''s1'') = Some ''s1''" "''s1'' \<noteq> []"
    "single ''s1'' (entry ''v1'' 0) ''s1'' = Some (entry ''v1'' 0)"
    "1000 - timestamp (entry ''v1'' 0) \<le> 10 * 60 * 1000"
    by (simp_all add: query_def truthy_def single_def entry_def)
  have k: "OAUTH_CLIENT_ID env_redirect = Some ''client-1''" "''client-1'' \<noteq> []"
    "OAUTH_CLIENT_SECRET env_redirect = Some ''secret-1''" "''secret-1'' \<noteq> []"
    by (simp_all add: env_redirect_def)
  have k': "OAUTH_CLIENT_ID env_vercel = Some ''client-1''" "''client-1'' \<noteq> []"
    "OAUTH_CLIENT_SECRET env_vercel = Some ''secret-1''" "''secret-1'' \<noteq> []"
    by (simp_all add: env_vercel_def)
  have u: "OAUTH_REDIRECT_URI env_redirect = Some ''https://sheets.example/api/oauth/callback''"
    "OAUTH_REDIRECT_URI env_vercel = None"
    "VERCEL_URL env_vercel = Some ''https://sheets.vercel.example''"
    by (simp_all add: env_redirect_def env_vercel_def)
  have ver: "codeVerifier (entry ''v1'' 0) = ''v1''"
    by (simp add: entry_def)
  have kvs: "token_json = JObject [(''access_token'', JString ''tok''),
      (''token_type'', JString ''bearer''), (''expires_in'', JNumber ''3600'')]"
    by (simp add: token_json_def)
  note r = token_request_and_result [of "query ''abc123'' ''s1''" "''abc123''" "''s1''"
      "single ''s1'' (entry ''v1'' 0)" "entry ''v1'' 0" 1000 env_redirect "''client-1''"
      "''secret-1''" endpoint_grants
      "\<lparr> resp_status = 200, resp_text = Inr ''{...}'', resp_json = Inr token_json \<rparr>"
      "[(''access_token'', JString ''tok''), (''token_type'', JString ''bearer''),
        (''expires_in'', JNumber ''3600'')]" "''tok''", OF h k]
  note r' = token_request_and_result [of "query ''abc123'' ''s1''" "''abc123''" "''s1''"
      "single ''s1'' (entry ''v1'' 0)" "entry ''v1'' 0" 1000 env_vercel "''client-1''"
      "''secret-1''" endpoint_grants, OF h k', THEN conjunct1]
  from r[THEN conjunct1] have a: "fetched (GET env_redirect endpoint_grants 1000
       (Some (single ''s1'' (entry ''v1'' 0))) (query ''abc123'' ''s1'')) =
     [\<lparr> url = ''https://api.anthropic.com/oauth/token'', http_method = ''POST'',
        headers = [(''Content-Type'', ''application/x-www-form-urlencoded''),
                   (''Accept'', ''application/json'')],
        form_body =
          [(''grant_type'', ''authorization_code''), (''client_id'', ''client-1''),
           (''client_secret'', ''secret-1''), (''code'', ''abc123''),
           (''redirect_uri'', ''https://sheets.example/api/oauth/callback''),
           (''code_verifier'', ''v1'')] \<rparr>]"
    by (simp add: u ver)
  from r[THEN conjunct2] have b: "returned (GET env_redirect endpoint_grants 1000
       (Some (single ''s1'' (entry ''v1'' 0))) (query ''abc123'' ''s1'')) =
     json_response 200 (AuthorizationSuccessful
       \<lparr> access_token = Some (JString ''tok''), token_type = Some (JString ''bearer''),
         expires_in = Some (JNumber ''3600''), refresh_token = None, scope = None \<rparr>
       ''Authorization: Bearer tok'')"
    by (simp add: endpoint_grants_def ok_def kvs)
  from r' have a': "fetched (GET env_vercel endpoint_grants 1000
       (Some (single ''s1'' (entry ''v1'' 0))) (query ''abc123'' ''s1'')) =
     [\<lparr> url = ''https://api.anthropic.com/oauth/token'', http_method = ''POST'',
        headers = [(''Content-Type'', ''application/x-www-form-urlencoded''),
                   (''Accept'', ''application/json'')],
        form_body =
          [(''grant_type'', ''authorization_code''), (''client_id'', ''client-1''),
           (''client_secret'', ''secret-1''), (''code'', ''abc123''),
           (''redirect_uri'', ''https://sheets.vercel.example/api/oauth/callback''),
           (''code_verifier'', ''v1'')] \<rparr>]"
    by (simp add: u ver)
  from h k u a b a' show ?thesis by blast
qed

section \<open>When the state entry is removed\<close>

lemma try_block_never_invalid:
  "try_block env fetch m c s info = (Inr r, store', reqs) \<Longrightarrow> body r \<noteq> InvalidOrExpiredState"
  by (auto simp: try_block_def Let_def json_response_def
      split: if_splits fetch_outcome.splits sum.splits)

lemma GET_never_invalid:
  assumes "\<not> truthy (error q)" "code q = Some c" "c \<noteq> []" "state q = Some s" "s \<noteq> []"
    and "m s = Some info" "\<not> timestamp info < now - TTL_ms"
  shows "body (returned (GET env fetch now (Some m) q)) \<noteq> InvalidOrExpiredState"
proof -
  obtain r st' reqs where tb: "try_block env fetch m c s info = (r, st', reqs)"
    by (cases "try_block env fetch m c s info") auto
  show ?thesis
  proof (cases r)
    case (Inl t)
    with GET_try[where m=m and s=s, OF assms(1-5) assms(6) assms(7), of env fetch] tb
    show ?thesis by (simp add: json_response_def)
  next
    case (Inr resp)
    with try_block_never_invalid[of env fetch m c s info resp st' reqs] tb
    have "body resp \<noteq> InvalidOrExpiredState" by simp
    with GET_try[where m=m and s=s, OF assms(1-5) assms(6) assms(7), of env fetch] tb Inr
    show ?thesis by simp
  qed
qed

text \<open>
  Claim C2: the first callback whose lookup succeeds and whose token exchange succeeds
  (a success response with a JSON body, not \<open>null\<close>, whose access token can be
  printed into the usage example) gets the success answer. The entry is removed on that
  path (line 92), as soon as the body of the success response has been parsed. Every
  later callback with the same state, at any time and after any number of other
  callbacks, gets 400 "Invalid or expired OAuth state" and makes no request.
\<close>

theorem success_is_single_use:
  assumes "\<not> truthy (error q)" "code q = Some c" "c \<noteq> []" "state q = Some s" "s \<noteq> []"
    and "m s = Some info" "now - timestamp info \<le> 10 * 60 * 1000"
    and "truthy (OAUTH_CLIENT_ID env)" "truthy (OAUTH_CLIENT_SECRET env)"
    and "fetch (token_post env c info) = Resolves r" "ok r" "resp_json r = Inr j"
    and "\<not> truthy (error q')" "code q' = Some c'" "c' \<noteq> []" "state q' = Some s"
  shows "(j \<noteq> JNull \<and> example j = Inr ex \<longrightarrow>
           GET env fetch now (Some m) q =
             \<lparr> returned = json_response 200 (AuthorizationSuccessful
                 \<lparr> access_token = member j ''access_token'',
                   token_type = member j ''token_type'',
                   expires_in = member j ''expires_in'',
                   refresh_token = member j ''refresh_token'',
                   scope = member j ''scope'' \<rparr> ex),
               oauthStates = Some (m(s := None)), fetched = [token_post env c info] \<rparr>)
         \<and> oauthStates (GET env fetch now (Some m) q) = Some (m(s := None))
         \<and> GET env' fetch' now' (after_callbacks (Some (m(s := None))) cbs) q' =
           \<lparr> returned = json_response 400 InvalidOrExpiredState,
             oauthStates = after_callbacks (Some (m(s := None))) cbs, fetched = [] \<rparr>"
proof -
  from assms(7) have fresh: "\<not> timestamp info < now - TTL_ms"
    by (simp add: TTL_ms_def)
  note G = GET_try[where m=m and s=s, OF assms(1-5) assms(6) fresh, of env fetch]
  have first: "GET env fetch now (Some m) q =
      \<lparr> returned = json_response 200 (AuthorizationSuccessful
          \<lparr> access_token = member j ''access_token'', token_type = member j ''token_type'',
            expires_in = member j ''expires_in'', refresh_token = member j ''refresh_token'',
            scope = member j ''scope'' \<rparr> ex),
        oauthStates = Some (m(s := None)), fetched = [token_post env c info] \<rparr>"
    if p: "j \<noteq> JNull \<and> example j = Inr ex"
  proof -
    from p have nn: "j \<noteq> JNull" and pr: "example j = Inr ex" by simp_all
    have "try_block env fetch m c s info =
        (Inr (json_response 200 (AuthorizationSuccessful
          \<lparr> access_token = member j ''access_token'', token_type = member j ''token_type'',
            expires_in = member j ''expires_in'', refresh_token = member j ''refresh_token'',
            scope = member j ''scope'' \<rparr> ex)),
         Some (m(s := None)), [token_post env c info])"
      by (rule try_block_granted[where fetch=fetch, OF assms(8-12) nn pr])
    with G show ?thesis by simp
  qed
  have removed: "oauthStates (GET env fetch now (Some m) q) = Some (m(s := None))"
    by (rule GET_parsed[where m=m and s=s and fetch=fetch,
          OF assms(1-5) assms(6) fresh assms(8-12)])
  have "lookup (Some (m(s := None))) s = None"
    by (simp add: lookup_def)
  then have "lookup (after_callbacks (Some (m(s := None))) cbs) s = None"
    by (rule after_callbacks_keeps_absent)
  from GET_unknown[OF assms(13-15) assms(16) assms(5) this]
  have later: "GET env' fetch' now' (after_callbacks (Some (m(s := None))) cbs) q' =
      \<lparr> returned = json_response 400 InvalidOrExpiredState,
        oauthStates = after_callbacks (Some (m(s := None))) cbs, fetched = [] \<rparr>" .
  from first removed later show ?thesis by blast
qed

text \<open>
  The end-to-end scenario of the specification: \<open>s1\<close> is exchanged at one second,
  and presented again twice.
\<close>

theorem success_is_single_use_witness:
  "\<not> truthy (error (query ''abc123'' ''s1'')) \<and>
   code (query ''abc123'' ''s1'') = Some ''abc123'' \<and> ''abc123'' \<noteq> [] \<and>
   state (query ''abc123'' ''s1'') = Some ''s1'' \<and> ''s1'' \<noteq> [] \<and>
   single ''s1'' (entry ''v1'' 0) ''s1'' = Some (entry ''v1'' 0) \<and>
   1000 - timestamp (entry ''v1'' 0) \<le> 10 * 60 * 1000 \<and>
   truthy (OAUTH_CLIENT_ID env_configured) \<and> truthy (OAUTH_CLIENT_SECRET env_configured) \<and>
   endpoint_grants (token_post env_configured ''abc123'' (entry ''v1'' 0)) =
     Resolves \<lparr> resp_status = 200, resp_text = Inr ''{...}'', resp_json = Inr token_json \<rparr> \<and>
   ok \<lparr> resp_status = 200, resp_text = Inr ''{...}'', resp_json = Inr token_json \<rparr> \<and>
   token_json \<noteq> JNull \<and> example token_json = Inr ''Authorization: Bearer tok'' \<and>
   GET env_configured endpoint_grants 1000 (Some (single ''s1'' (entry ''v1'' 0)))
       (query ''abc123'' ''s1'') =
     \<lparr> returned = json_response 200 (AuthorizationSuccessful
         \<lparr> access_token = Some (JString ''tok''), token_type = Some (JString ''bearer''),
           expires_in = Some (JNumber ''3600''), refresh_token = None, scope = None \<rparr>
         ''Authorization: Bearer tok''),
       oauthStates = Some ((single ''s1'' (entry ''v1'' 0))(''s1'' := None)),
       fetched = [token_post env_configured ''abc123'' (entry ''v1'' 0)] \<rparr> \<and>
   GET env_configured endpoint_grants 2000
       (after_callbacks (Some ((single ''s1'' (entry ''v1'' 0))(''s1'' := None)))
          [a_callback 1500 (query ''abc123'' ''s1'')])
       (query ''abc123'' ''s1'') =
     \<lparr> returned = json_response 400 InvalidOrExpiredState,
       oauthStates =
         after_callbacks (Some ((single ''s1'' (entry ''v1'' 0))(''s1'' := None)))
           [a_callback 1500 (query ''abc123'' ''s1'')],
       fetched = [] \<rparr>"
proof -
  have h: "\<not> truthy (error (query ''abc123'' ''s1''))"
    "code (query ''abc123'' ''s1'') = Some ''abc123''" "''abc123'' \<noteq> []"
    "state (query ''abc123'' ''s1'') = Some ''s1''" "''s1'' \<noteq> []"
    "single ''s1'' (entry ''v1'' 0) ''s1'' = Some (entry ''v1'' 0)"
    "1000 - timestamp (entry ''v1'' 0) \<le> 10 * 60 * 1000"
    "truthy (OAUTH_CLIENT_ID env_configured)" "truthy (OAUTH_CLIENT_SECRET env_configured)"
    "endpoint_grants (token_post env_configured ''abc123'' (entry ''v1'' 0)) =
       Resolves \<lparr> resp_status = 200, resp_text = Inr ''{...}'', resp_json = Inr token_json \<rparr>"
    "ok \<lparr> resp_status = 200, resp_text = Inr ''{...}'', resp_json = Inr token_json \<rparr>"
    "resp_json \<lparr> resp_status = 200, resp_text = Inr ''{...}'', resp_json = Inr token_json \<rparr> =
       Inr token_json"
    by (simp_all add: query_def truthy_def single_def entry_def env_configured_def
        endpoint_grants_def ok_def)
  have g: "token_json \<noteq> JNull \<and> example token_json = Inr ''Authorization: Bearer tok''"
    by (simp add: token_json_def example_def member_def)
  have mem: "member token_json ''access_token'' = Some (JString ''tok'')"
    "member token_json ''token_type'' = Some (JString ''bearer'')"
    "member token_json ''expires_in'' = Some (JNumber ''3600'')"
    "member token_json ''refresh_token'' = None"
    "member token_json ''scope'' = None"
    by (simp_all add: member_def token_json_def)
  note r = success_is_single_use [of "query ''abc123'' ''s1''" "''abc123''" "''s1''"
      "single ''s1'' (entry ''v1'' 0)" "entry ''v1'' 0" 1000 env_configured endpoint_grants
      "\<lparr> resp_status = 200, resp_text = Inr ''{...}'', resp_json = Inr token_json \<rparr>"
      token_json "query ''abc123'' ''s1''" "''abc123''" "''Authorization: Bearer tok''"
      env_configured endpoint_grants 2000
      "[a_callback 1500 (query ''abc123'' ''s1'')]", OF h h(1-4)]
  from r[THEN conjunct1, THEN mp, OF g] have a: "GET env_configured endpoint_grants 1000
       (Some (single ''s1'' (entry ''v1'' 0))) (query ''abc123'' ''s1'') =
     \<lparr> returned = json_response 200 (AuthorizationSuccessful
         \<lparr> access_token = Some (JString ''tok''), token_type = Some (JString ''bearer''),
           expires_in = Some (JNumber ''3600''), refresh_token = None, scope = None \<rparr>
         ''Authorization: Bearer tok''),
       oauthStates = Some ((single ''s1'' (entry ''v1'' 0))(''s1'' := None)),
       fetched = [token_post env_configured ''abc123'' (entry ''v1'' 0)] \<rparr>"
    by (simp only: mem)
  from h g a r[THEN conjunct2, THEN conjunct2] show ?thesis by blast
qed

text \<open>
  Claim C1, as stated, on the scenario "exchange failure does not resurrect state":
  the token endpoint answers 400, the handler answers "Token exchange failed", and the
  entry for \<open>s2\<close> is still in the store. The same callback a second later, with the
  endpoint now granting, is not rejected as an unknown state: it makes a fresh token
  request and succeeds.
\<close>

theorem failed_exchange_counterexample:
  "GET env_configured endpoint_rejects 1000 (Some (single ''s2'' (entry ''v2'' 0)))
       (query ''abc123'' ''s2'') =
     \<lparr> returned = json_response 400 (TokenExchangeFailed 400 ''invalid_grant''),
       oauthStates = Some (single ''s2'' (entry ''v2'' 0)),
       fetched = [token_post env_configured ''abc123'' (entry ''v2'' 0)] \<rparr> \<and>
   lookup (oauthStates (GET env_configured endpoint_rejects 1000
       (Some (single ''s2'' (entry ''v2'' 0))) (query ''abc123'' ''s2''))) ''s2'' =
     Some (entry ''v2'' 0) \<and>
   GET env_configured endpoint_grants 2000
       (oauthStates (GET env_configured endpoint_rejects 1000
          (Some (single ''s2'' (entry ''v2'' 0))) (query ''abc123'' ''s2'')))
       (query ''abc123'' ''s2'') =
     \<lparr> returned = json_response 200 (AuthorizationSuccessful
         \<lparr> access_token = Some (JString ''tok''), token_type = Some (JString ''bearer''),
           expires_in = Some (JNumber ''3600''), refresh_token = None, scope = None \<rparr>
         ''Authorization: Bearer tok''),
       oauthStates = Some ((single ''s2'' (entry ''v2'' 0))(''s2'' := None)),
       fetched = [token_post env_configured ''abc123'' (entry ''v2'' 0)] \<rparr>"
proof -
  have first: "GET env_configured endpoint_rejects 1000 (Some (single ''s2'' (entry ''v2'' 0)))
       (query ''abc123'' ''s2'') =
     \<lparr> returned = json_response 400 (TokenExchangeFailed 400 ''invalid_grant''),
       oauthStates = Some (single ''s2'' (entry ''v2'' 0)),
       fetched = [token_post env_configured ''abc123'' (entry ''v2'' 0)] \<rparr>"
    by (simp add: GET_def try_block_def query_def truthy_def or_else_def single_def entry_def
        env_configured_def endpoint_rejects_def ok_def TTL_ms_def)
  have second: "GET env_configured endpoint_grants 2000 (Some (single ''s2'' (entry ''v2'' 0)))
       (query ''abc123'' ''s2'') =
     \<lparr> returned = json_response 200 (AuthorizationSuccessful
         \<lparr> access_token = Some (JString ''tok''), token_type = Some (JString ''bearer''),
           expires_in = Some (JNumber ''3600''), refresh_token = None, scope = None \<rparr>
         ''Authorization: Bearer tok''),
       oauthStates = Some ((single ''s2'' (entry ''v2'' 0))(''s2'' := None)),
       fetched = [token_post env_configured ''abc123'' (entry ''v2'' 0)] \<rparr>"
    by (simp add: GET_def try_block_def query_def truthy_def or_else_def single_def entry_def
        env_configured_def endpoint_grants_def ok_def TTL_ms_def read_tokens_def member_def
        token_json_def example_def)
  have kept: "lookup (Some (single ''s2'' (entry ''v2'' 0))) ''s2'' = Some (entry ''v2'' 0)"
    by (simp add: lookup_def single_def)
  show ?thesis
    by (simp only: first second kept result.simps simp_thms)
qed

text \<open>
  Claim C1, amended: the handler does not remove the entry before the token request.
  When the token endpoint answers with a status outside 200 to 299, the handler answers
  400 "Token exchange failed" and leaves the store as it was; a later callback with the
  same state, while the entry is within its lifetime and the credentials are set, is not
  answered "Invalid or expired OAuth state" and makes a fresh token request.
\<close>

theorem failed_exchange_keeps_state:
  assumes "\<not> truthy (error q)" "code q = Some c" "c \<noteq> []" "state q = Some s" "s \<noteq> []"
    and "m s = Some info" "now - timestamp info \<le> 10 * 60 * 1000"
    and "truthy (OAUTH_CLIENT_ID env)" "truthy (OAUTH_CLIENT_SECRET env)"
    and "fetch (token_post env c info) = Resolves r" "\<not> ok r" "resp_text r = Inr b"
    and "\<not> truthy (error q')" "code q' = Some c'" "c' \<noteq> []" "state q' = Some s"
    and "now' - timestamp info \<le> 10 * 60 * 1000"
    and "truthy (OAUTH_CLIENT_ID env')" "truthy (OAUTH_CLIENT_SECRET env')"
  shows "GET env fetch now (Some m) q =
           \<lparr> returned = json_response 400 (TokenExchangeFailed (resp_status r) b),
             oauthStates = Some m, fetched = [token_post env c info] \<rparr>
         \<and> body (returned (GET env' fetch' now' (Some m) q')) \<noteq> InvalidOrExpiredState
         \<and> fetched (GET env' fetch' now' (Some m) q') = [token_post env' c' info]"
proof -
  from assms(7) have fresh: "\<not> timestamp info < now - TTL_ms"
    by (simp add: TTL_ms_def)
  from assms(17) have fresh': "\<not> timestamp info < now' - TTL_ms"
    by (simp add: TTL_ms_def)
  have "try_block env fetch m c s info =
      (Inr (json_response 400 (TokenExchangeFailed (resp_status r) b)), Some m,
       [token_post env c info])"
    by (rule try_block_not_ok[where fetch=fetch, OF assms(8-12)])
  with GET_try[where m=m and s=s, OF assms(1-5) assms(6) fresh, of env fetch]
  have first: "GET env fetch now (Some m) q =
      \<lparr> returned = json_response 400 (TokenExchangeFailed (resp_status r) b),
        oauthStates = Some m, fetched = [token_post env c info] \<rparr>"
    by simp
  have again: "fetched (GET env' fetch' now' (Some m) q') = [token_post env' c' info]"
    by (rule GET_fetched[where m=m and s=s, OF assms(13-16) assms(5) assms(6) fresh' assms(18,19)])
  have valid: "body (returned (GET env' fetch' now' (Some m) q')) \<noteq> InvalidOrExpiredState"
    by (rule GET_never_invalid[where m=m and s=s, OF assms(13-16) assms(5) assms(6) fresh'])
  from first valid again show ?thesis by blast
qed

text \<open>The callback for \<open>s2\<close> at one second and again at two, the endpoint answering 400.\<close>

theorem failed_exchange_keeps_state_witness:
  "\<not> truthy (error (query ''abc123'' ''s2'')) \<and>
   code (query ''abc123'' ''s2'') = Some ''abc123'' \<and> ''abc123'' \<noteq> [] \<and>
   state (query ''abc123'' ''s2'') = Some ''s2'' \<and> ''s2'' \<noteq> [] \<and>
   single ''s2'' (entry ''v2'' 0) ''s2'' = Some (entry ''v2'' 0) \<and>
   1000 - timestamp (entry ''v2'' 0) \<le> 10 * 60 * 1000 \<and>
   2000 - timestamp (entry ''v2'' 0) \<le> 10 * 60 * 1000 \<and>
   truthy (OAUTH_CLIENT_ID env_configured) \<and> truthy (OAUTH_CLIENT_SECRET env_configured) \<and>
   endpoint_rejects (token_post env_configured ''abc123'' (entry ''v2'' 0)) =
     Resolves \<lparr> resp_status = 400, resp_text = Inr ''invalid_grant'',
                resp_json = Inl (ErrorObject ''Unexpected token'') \<rparr> \<and>
   \<not> ok \<lparr> resp_status = 400, resp_text = Inr ''invalid_grant'',
           resp_json = Inl (ErrorObject ''Unexpected token'') \<rparr> \<and>
   GET env_configured endpoint_rejects 1000 (Some (single ''s2'' (entry ''v2'' 0)))
       (query ''abc123'' ''s2'') =
     \<lparr> returned = json_response 400 (TokenExchangeFailed 400 ''invalid_grant''),
       oauthStates = Some (single ''s2'' (entry ''v2'' 0)),
       fetched = [token_post env_configured ''abc123'' (entry ''v2'' 0)] \<rparr> \<and>
   body (returned (GET env_configured endpoint_rejects 2000
       (Some (single ''s2'' (entry ''v2'' 0))) (query ''abc123'' ''s2''))) \<noteq>
     InvalidOrExpiredState \<and>
   fetched (GET env_configured endpoint_rejects 2000
       (Some (single ''s2'' (entry ''v2'' 0))) (query ''abc123'' ''s2'')) =
     [token_post env_configured ''abc123'' (entry ''v2'' 0)]"
proof -
  have h: "\<not> truthy (error (query ''abc123'' ''s2''))"
    "code (query ''abc123'' ''s2'') = Some ''abc123''" "''abc123'' \<noteq> []"
    "state (query ''abc123'' ''s2'') = Some ''s2''" "''s2'' \<noteq> []"
    "single ''s2'' (entry ''v2'' 0) ''s2'' = Some (entry ''v2'' 0)"
    "1000 - timestamp (entry ''v2'' 0) \<le> 10 * 60 * 1000"
    "truthy (OAUTH_CLIENT_ID env_configured)" "truthy (OAUTH_CLIENT_SECRET env_configured)"
    "endpoint_rejects (token_post env_configured ''abc123'' (entry ''v2'' 0)) =
       Resolves \<lparr> resp_status = 400, resp_text = Inr ''invalid_grant'',
                  resp_json = Inl (ErrorObject ''Unexpected token'') \<rparr>"
    "\<not> ok \<lparr> resp_status = 400, resp_text = Inr ''invalid_grant'',
             resp_json = Inl (ErrorObject ''Unexpected token'') \<rparr>"
    "resp_text \<lparr> resp_status = 400, resp_text = Inr ''invalid_grant'',
                 resp_json = Inl (ErrorObject ''Unexpected token'') \<rparr> = Inr ''invalid_grant''"
    by (simp_all add: query_def truthy_def single_def entry_def env_configured_def
        endpoint_rejects_def ok_def)
  have h': "2000 - timestamp (entry ''v2'' 0) \<le> 10 * 60 * 1000"
    by (simp add: entry_def)
  have st: "resp_status \<lparr> resp_status = 400, resp_text = Inr ''invalid_grant'',
                 resp_json = Inl (ErrorObject ''Unexpected token'') \<rparr> = 400"
    by simp
  note r = failed_exchange_keeps_state [of "query ''abc123'' ''s2''" "''abc123''" "''s2''"
      "single ''s2'' (entry ''v2'' 0)" "entry ''v2'' 0" 1000 env_configured endpoint_rejects
      "\<lparr> resp_status = 400, resp_text = Inr ''invalid_grant'',
         resp_json = Inl (ErrorObject ''Unexpected token'') \<rparr>" "''invalid_grant''"
      "query ''abc123'' ''s2''" "''abc123''" 2000 env_configured endpoint_rejects,
      OF h h(1-4) h' h(8,9)]
  from r[THEN conjunct1] have a: "GET env_configured endpoint_rejects 1000
       (Some (single ''s2'' (entry ''v2'' 0))) (query ''abc123'' ''s2'') =
     \<lparr> returned = json_response 400 (TokenExchangeFailed 400 ''invalid_grant''),
       oauthStates = Some (single ''s2'' (entry ''v2'' 0)),
       fetched = [token_post env_configured ''abc123'' (entry ''v2'' 0)] \<rparr>"
    by (simp only: st)
  from h h' a r[THEN conjunct2] show ?thesis by blast
qed

end
